theory Spec2Isabelle
  imports Main "HOL-Library.Sublist"
begin

section \<open>The host: paths, exceptions, events, file system\<close>

text \<open>
  \<open>tools/docker_quickstart.py\<close> is a driver around \<open>git\<close> and \<open>docker compose\<close>.
  Everything it does is an effect on the host, so the model is a function from the
  host's state to a result, the list of effects performed (in order) and the new state.

  A resolved, absolute POSIX path is the list of its components; \<open>str(path)\<close> joins
  them with slashes and \<open>path / name\<close> appends a component.
\<close>

type_synonym path = "string list"

definition str_path :: "path \<Rightarrow> string" where
  "str_path p = (if p = [] then ''/'' else concat (map (\<lambda>c. ''/'' @ c) p))"

definition path_div :: "path \<Rightarrow> string \<Rightarrow> path" where
  "path_div p name = p @ [name]"

text \<open>
  The exceptions that can travel through \<open>main\<close>. \<open>CommandError\<close> is the class of
  the source (line 32); the others are Python's. Each carries its \<open>str()\<close> text,
  \<open>UnicodeEncodeError\<close> the text that could not be encoded, \<open>SystemExit\<close> its code.
\<close>

datatype py_exception =
    CommandError string
  | FileNotFoundError string
  | FileExistsError string
  | NotADirectoryError string
  | UnicodeEncodeError string
  | OtherException string
  | SystemExit int

datatype stream = Stdout | Stderr

text \<open>
  One event per effect: \<open>Path.mkdir\<close> with its two flags, \<open>Path.exists\<close> with its
  answer, \<open>subprocess.run\<close> with the command, the working directory and what came
  back (the return code, or the exception raised while launching), and \<open>print\<close>.
\<close>

datatype event =
    Mkdir path bool bool
  | Exists path bool
  | Run "string list" "path option" "py_exception + int"
  | Print stream string

record fs =
  dirs :: "path set"
  files :: "path set"

definition is_dir :: "'x fs_scheme \<Rightarrow> path \<Rightarrow> bool" where
  "is_dir w p = (p = [] \<or> p \<in> dirs w)"

definition exists_path :: "'x fs_scheme \<Rightarrow> path \<Rightarrow> bool" where
  "exists_path w p = (is_dir w p \<or> p \<in> files w)"

record args =
  repo_url :: string
  branch :: string
  workspace :: string
  packaging_url :: string
  compose_services :: "string list"
  no_start :: bool

text \<open>
  What the program takes from its surroundings: the home directory (line 29), the
  result of \<open>Path.expanduser().resolve()\<close>, the external process behind
  \<open>subprocess.run\<close> (its return code or the exception of a failed launch, and what
  it did to the host), the answer of the \<open>argparse\<close> library on command lines
  outside the fragment that \<open>parse_args\<close> below spells out, and which characters
  the encoding of standard output has (\<open>stdout_encodes\<close>, asked of a run of
  non-ASCII bytes).
\<close>

record 'x os =
  home :: path
  expand_resolve :: "string \<Rightarrow> 'x fs_scheme \<Rightarrow> py_exception + path"
  subprocess_run ::
    "string list \<Rightarrow> path option \<Rightarrow> 'x fs_scheme \<Rightarrow> (py_exception + int) \<times> 'x fs_scheme"
  argparse_other :: "string list \<Rightarrow> py_exception + args"
  stdout_encodes :: "string \<Rightarrow> bool"

type_synonym ('x, 'a) prog =
  "'x fs_scheme \<Rightarrow> (py_exception + 'a) \<times> event list \<times> 'x fs_scheme"

text \<open>Statement sequencing: an exception of the first statement skips the rest.\<close>

definition and_then :: "('x, 'a) prog \<Rightarrow> ('a \<Rightarrow> ('x, 'b) prog) \<Rightarrow> ('x, 'b) prog" where
  "and_then m k w =
     (case m w of
        (Inl e, evs, w') \<Rightarrow> (Inl e, evs, w')
      | (Inr x, evs, w') \<Rightarrow>
          (case k x w' of (r, evs', w'') \<Rightarrow> (r, evs @ evs', w'')))"

text \<open>
  \<open>print\<close>. Standard output encodes with the \<open>strict\<close> error handler, so
  \<open>print\<close> raises \<open>UnicodeEncodeError\<close>, and writes nothing, when the text has a
  character that the encoding of standard output lacks; standard error encodes with
  \<open>backslashreplace\<close> and takes every text. A string of the model is the bytes of a
  Python string (UTF-8, a byte that is no UTF-8 standing for the lone surrogate that
  Python makes of it). ASCII characters are in every encoding; the other characters
  of a text are spelled by its maximal runs of non-ASCII bytes, one run never
  reaching into the next, so the text can be encoded when each of these runs can.
  A failing device (a closed pipe, a full disk) is not modelled.
\<close>

definition is_ascii :: "char \<Rightarrow> bool" where
  "is_ascii c = (of_char c < (128 :: nat))"

fun parts_from :: "string \<Rightarrow> string \<Rightarrow> string list" where
  "parts_from cur [] = (if cur = [] then [] else [cur])"
| "parts_from cur (c # cs) =
     (if is_ascii c then (if cur = [] then [] else [cur]) @ parts_from [] cs
      else parts_from (cur @ [c]) cs)"

definition non_ascii_parts :: "string \<Rightarrow> string list" where
  "non_ascii_parts text = parts_from [] text"

definition stdout_accepts :: "'x os \<Rightarrow> string \<Rightarrow> bool" where
  "stdout_accepts os text = list_all (stdout_encodes os) (non_ascii_parts text)"

definition print :: "'x os \<Rightarrow> stream \<Rightarrow> string \<Rightarrow> ('x, unit) prog" where
  "print os f text w =
     (if f = Stdout \<and> \<not> stdout_accepts os text then (Inl (UnicodeEncodeError text), [], w)
      else (Inr (), [Print f text], w))"

definition path_exists :: "path \<Rightarrow> ('x, bool) prog" where
  "path_exists p w = (Inr (exists_path w p), [Exists p (exists_path w p)], w)"

section \<open>Python's \<open>str(int)\<close> and \<open>str.join\<close>\<close>

definition digit_char :: "nat \<Rightarrow> char" where
  "digit_char d = char_of (48 + d)"

function str_nat :: "nat \<Rightarrow> string" where
  "str_nat n = (if n < 10 then [digit_char n] else str_nat (n div 10) @ [digit_char (n mod 10)])"
  by pat_completeness auto
termination
  by (relation "measure id") auto

declare str_nat.simps [simp del]

definition str_int :: "int \<Rightarrow> string" where
  "str_int i = (if i < 0 then ''-'' @ str_nat (nat (- i)) else str_nat (nat i))"

fun join :: "string \<Rightarrow> string list \<Rightarrow> string" where
  "join sep [] = []"
| "join sep [x] = x"
| "join sep (x # y # ys) = x @ sep @ join sep (y # ys)"

section \<open>\<open>Path.mkdir\<close>\<close>

text \<open>
  \<open>os.mkdir\<close> on the model file system: the path must not exist and its parent must
  be a directory.
\<close>

definition os_mkdir :: "path \<Rightarrow> 'x fs_scheme \<Rightarrow> py_exception + 'x fs_scheme" where
  "os_mkdir p w =
     (if exists_path w p then Inl (FileExistsError (str_path p))
      else if is_dir w (butlast p) then Inr (w\<lparr>dirs := insert p (dirs w)\<rparr>)
      else if butlast p \<in> files w then Inl (NotADirectoryError (str_path p))
      else Inl (FileNotFoundError (str_path p)))"

text \<open>
  \<open>pathlib.Path.mkdir(parents, exist_ok)\<close>, as the library defines it: try
  \<open>os.mkdir\<close>; on \<open>FileNotFoundError\<close> with \<open>parents\<close> set, make the parent (with
  both flags set) and try once more without \<open>parents\<close>; any other \<open>OSError\<close> is
  swallowed only when \<open>exist_ok\<close> is set and the path is a directory.
\<close>

function mkdir :: "path \<Rightarrow> bool \<Rightarrow> bool \<Rightarrow> 'x fs_scheme \<Rightarrow> py_exception + 'x fs_scheme" where
  "mkdir p parents exist_ok w =
     (case os_mkdir p w of
        Inr w' \<Rightarrow> Inr w'
      | Inl (FileNotFoundError m) \<Rightarrow>
          if \<not> parents \<or> p = [] then Inl (FileNotFoundError m)
          else (case mkdir (butlast p) True True w of
                  Inl e \<Rightarrow> Inl e
                | Inr w' \<Rightarrow> mkdir p False exist_ok w')
      | Inl e \<Rightarrow> if \<not> exist_ok \<or> \<not> is_dir w p then Inl e else Inr w)"
  by pat_completeness auto
termination
  by (relation "measure (\<lambda>(p, parents, exist_ok, w). 2 * length p + (if parents then 1 else 0))")
     (auto simp: neq_Nil_conv)

declare mkdir.simps [simp del]

definition path_mkdir :: "path \<Rightarrow> bool \<Rightarrow> bool \<Rightarrow> ('x, unit) prog" where
  "path_mkdir p parents exist_ok w =
     (case mkdir p parents exist_ok w of
        Inl e \<Rightarrow> (Inl e, [Mkdir p parents exist_ok], w)
      | Inr w' \<Rightarrow> (Inr (), [Mkdir p parents exist_ok], w'))"

section \<open>The source, function by function\<close>

definition DEFAULT_PACKAGING_REPO :: string where
  "DEFAULT_PACKAGING_REPO = ''https://github.com/netdisco/netdisco-docker.git''"

definition DEFAULT_BRANCH :: string where
  "DEFAULT_BRANCH = ''main''"

definition DEFAULT_WORKSPACE :: "'x os \<Rightarrow> string" where
  "DEFAULT_WORKSPACE os = str_path (path_div (home os) ''netdisco-docker-workspace'')"

text \<open>\<open>run_command\<close>, lines 36 to 42.\<close>

definition run_command :: "'x os \<Rightarrow> string list \<Rightarrow> path option \<Rightarrow> ('x, unit) prog" where
  "run_command os cmd cwd w =
     (case subprocess_run os cmd cwd w of
        (Inl e, w') \<Rightarrow> (Inl e, [Run cmd cwd (Inl e)], w')
      | (Inr returncode, w') \<Rightarrow>
          if returncode \<noteq> 0
          then (Inl (CommandError
                  (''Command failed ('' @ str_int returncode @ ''): '' @ join '' '' cmd)),
                [Run cmd cwd (Inr returncode)], w')
          else (Inr (), [Run cmd cwd (Inr returncode)], w'))"

text \<open>\<open>ensure_repo\<close>, lines 45 to 55.\<close>

definition ensure_repo :: "'x os \<Rightarrow> string \<Rightarrow> path \<Rightarrow> string \<Rightarrow> ('x, unit) prog" where
  "ensure_repo os url destination branch' =
     and_then (path_exists destination) (\<lambda>present.
       if present then
         and_then (print os Stdout (''Updating repository in '' @ str_path destination)) (\<lambda>_.
         and_then (run_command os [''git'', ''fetch'', ''--all''] (Some destination)) (\<lambda>_.
         and_then (run_command os [''git'', ''checkout'', branch'] (Some destination)) (\<lambda>_.
         run_command os [''git'', ''pull'', ''--ff-only''] (Some destination))))
       else
         and_then (print os Stdout (''Cloning '' @ url @ '' into '' @ str_path destination)) (\<lambda>_.
         run_command os
           [''git'', ''clone'', ''--branch'', branch', url, str_path destination] None))"

text \<open>
  \<open>parse_args\<close>, lines 58 to 92. The six \<open>add_argument\<close> calls give the option
  strings, their arities and their defaults. The model spells out what \<open>argparse\<close>
  does on command lines made of these option strings written in full and of tokens
  that do not start with a dash: the four single-valued options need exactly one
  value after them, \<open>--compose-services\<close> (\<open>nargs="*"\<close>) takes every value up to
  the next option, \<open>--no-start\<close> takes none, a later occurrence overrides an earlier
  one, a value that belongs to no option is an error, and so is a missing
  \<open>--repo-url\<close>; an error exits with code 2. Abbreviated options, \<open>--opt=value\<close>,
  \<open>-h\<close> and other dash tokens are left to the library (\<open>argparse_other\<close>).
  The usage text that \<open>argparse\<close> prints before it exits is not part of the trace.
\<close>

definition option_strings :: "string list" where
  "option_strings =
     [''--repo-url'', ''--branch'', ''--workspace'', ''--packaging-url'',
      ''--compose-services'', ''--no-start'']"

definition is_value :: "string \<Rightarrow> bool" where
  "is_value t = (case t of [] \<Rightarrow> True | c # _ \<Rightarrow> c \<noteq> CHR ''-'')"

definition in_fragment :: "string list \<Rightarrow> bool" where
  "in_fragment argv = list_all (\<lambda>t. is_value t \<or> t \<in> set option_strings) argv"

definition one_value :: "string list \<Rightarrow> (string \<times> string list) option" where
  "one_value ts = (case ts of v # rest \<Rightarrow> if is_value v then Some (v, rest) else None | [] \<Rightarrow> None)"

function parse_tokens :: "string option \<Rightarrow> args \<Rightarrow> string list \<Rightarrow> py_exception + args" where
  "parse_tokens url a [] =
     (case url of None \<Rightarrow> Inl (SystemExit 2) | Some u \<Rightarrow> Inr (a\<lparr>repo_url := u\<rparr>))"
| "parse_tokens url a (t # ts) =
     (if t = ''--repo-url'' then
        (case one_value ts of None \<Rightarrow> Inl (SystemExit 2)
         | Some (v, rest) \<Rightarrow> parse_tokens (Some v) a rest)
      else if t = ''--branch'' then
        (case one_value ts of None \<Rightarrow> Inl (SystemExit 2)
         | Some (v, rest) \<Rightarrow> parse_tokens url (a\<lparr>branch := v\<rparr>) rest)
      else if t = ''--workspace'' then
        (case one_value ts of None \<Rightarrow> Inl (SystemExit 2)
         | Some (v, rest) \<Rightarrow> parse_tokens url (a\<lparr>workspace := v\<rparr>) rest)
      else if t = ''--packaging-url'' then
        (case one_value ts of None \<Rightarrow> Inl (SystemExit 2)
         | Some (v, rest) \<Rightarrow> parse_tokens url (a\<lparr>packaging_url := v\<rparr>) rest)
      else if t = ''--compose-services'' then
        parse_tokens url (a\<lparr>compose_services := takeWhile is_value ts\<rparr>) (dropWhile is_value ts)
      else if t = ''--no-start'' then
        parse_tokens url (a\<lparr>no_start := True\<rparr>) ts
      else Inl (SystemExit 2))"
  by pat_completeness auto
termination
  by (relation "measure (\<lambda>(url, a, ts). length ts)")
     (auto simp: one_value_def less_Suc_eq_le length_dropWhile_le split: list.splits if_splits)

definition parse_args :: "'x os \<Rightarrow> string list \<Rightarrow> py_exception + args" where
  "parse_args os argv =
     (if in_fragment argv then
        parse_tokens None
          \<lparr>repo_url = [], branch = DEFAULT_BRANCH, workspace = DEFAULT_WORKSPACE os,
           packaging_url = DEFAULT_PACKAGING_REPO,
           compose_services = [''netdisco-backend'', ''netdisco-web''], no_start = False\<rparr>
          argv
      else argparse_other os argv)"

text \<open>\<open>build_and_run\<close>, lines 95 to 121.\<close>

definition ellipsis :: string where
  "ellipsis = [CHR 0xE2, CHR 0x80, CHR 0xA6]"

definition apostrophe :: string where
  "apostrophe = [CHR 0x27]"

definition compose_cmd :: "string list \<Rightarrow> string \<Rightarrow> string \<Rightarrow> string list" where
  "compose_cmd services branch' repo_url' =
     [''docker'', ''compose'', ''build'',
      ''--build-arg'', ''COMMITTISH='' @ branch',
      ''--build-arg'', ''GIT_URL='' @ repo_url'] @ services"

definition up_cmd :: "string list" where
  "up_cmd = [''docker'', ''compose'', ''up'', ''-d'']"

definition build_and_run ::
  "'x os \<Rightarrow> path \<Rightarrow> string list \<Rightarrow> string \<Rightarrow> string \<Rightarrow> bool \<Rightarrow> ('x, unit) prog" where
  "build_and_run os packaging_dir services branch' repo_url' start_after_build =
     and_then (print os Stdout (''Building Docker images'' @ ellipsis)) (\<lambda>_.
     and_then (run_command os (compose_cmd services branch' repo_url') (Some packaging_dir)) (\<lambda>_.
       if start_after_build then
         and_then (print os Stdout (''Starting Docker stack'' @ ellipsis)) (\<lambda>_.
         and_then (run_command os up_cmd (Some packaging_dir)) (\<lambda>_.
         print os Stdout (''Stack started. Use '' @ apostrophe @ ''docker compose logs -f''
                       @ apostrophe @ '' to watch output.'')))
       else
         print os Stdout (''Build complete. Skipping '' @ apostrophe @ ''docker compose up''
                       @ apostrophe @ '' as requested.'')))"

text \<open>
  \<open>main\<close>, lines 124 to 152. \<open>main_steps\<close> is the body of the \<open>try\<close> block
  with the two directories of lines 129 and 130, \<open>main_try\<close> the \<open>try\<close> statement
  with its two handlers and the returns. An exception that neither handler catches
  leaves \<open>main\<close> (result \<open>Inl\<close>).
\<close>

definition main_steps :: "'x os \<Rightarrow> args \<Rightarrow> path \<Rightarrow> ('x, unit) prog" where
  "main_steps os a workspace' =
     (let packaging_dir = path_div workspace' ''netdisco-docker'';
          fork_dir = path_div workspace' ''netdisco''
      in and_then (ensure_repo os (packaging_url a) packaging_dir ''main'') (\<lambda>_.
         and_then (ensure_repo os (repo_url a) fork_dir (branch a)) (\<lambda>_.
         build_and_run os packaging_dir (compose_services a) (branch a) (repo_url a)
           (\<not> no_start a))))"

definition main_try :: "'x os \<Rightarrow> args \<Rightarrow> path \<Rightarrow> ('x, int) prog" where
  "main_try os a workspace' w =
     (case main_steps os a workspace' w of
        (Inr _, evs, w') \<Rightarrow> (Inr 0, evs, w')
      | (Inl (CommandError text), evs, w') \<Rightarrow> (Inr 1, evs @ [Print Stderr text], w')
      | (Inl (FileNotFoundError text), evs, w') \<Rightarrow>
          (Inr 1,
           evs @ [Print Stderr (''Required executable not found: '' @ text
                                @ ''. Please install git and docker.'')], w')
      | (Inl e, evs, w') \<Rightarrow> (Inl e, evs, w'))"

definition main :: "'x os \<Rightarrow> string list \<Rightarrow> ('x, int) prog" where
  "main os argv w =
     (case parse_args os argv of
        Inl e \<Rightarrow> (Inl e, [], w)
      | Inr a \<Rightarrow>
          (case expand_resolve os (workspace a) w of
             Inl e \<Rightarrow> (Inl e, [], w)
           | Inr workspace' \<Rightarrow>
               and_then (path_mkdir workspace' True True) (\<lambda>_. main_try os a workspace') w))"

section \<open>Reading a trace\<close>

text \<open>
  The external commands of a trace, in order, each with its working directory and its
  outcome; the commands alone; the outcomes alone; and the lines printed to a stream.
\<close>

type_synonym invocation = "string list \<times> path option"

fun runs :: "event list \<Rightarrow> (string list \<times> path option \<times> (py_exception + int)) list" where
  "runs [] = []"
| "runs (Run c d oc # evs) = (c, d, oc) # runs evs"
| "runs (_ # evs) = runs evs"

definition invoked :: "event list \<Rightarrow> invocation list" where
  "invoked evs = map (\<lambda>(c, d, oc). (c, d)) (runs evs)"


fun printed :: "stream \<Rightarrow> event list \<Rightarrow> string list" where
  "printed f [] = []"
| "printed f (Print g t # evs) = (if f = g then t # printed f evs else printed f evs)"
| "printed f (_ # evs) = printed f evs"

text \<open>
  The text of the \<open>CommandError\<close> for a return code and a command (line 42).
\<close>

definition failure_text :: "int \<Rightarrow> string list \<Rightarrow> string" where
  "failure_text rc cmd = ''Command failed ('' @ str_int rc @ ''): '' @ join '' '' cmd"

text \<open>
  Reading a decimal numeral back, to say what \<open>str_int\<close> writes.
\<close>

definition digit_val :: "char \<Rightarrow> nat" where
  "digit_val c = of_char c - 48"

definition read_nat :: "string \<Rightarrow> nat" where
  "read_nat s = foldl (\<lambda>n c. 10 * n + digit_val c) 0 s"

definition read_int :: "string \<Rightarrow> int" where
  "read_int s = (case s of c # cs \<Rightarrow> if c = CHR ''-'' then - int (read_nat cs) else int (read_nat s)
                 | [] \<Rightarrow> 0)"

text \<open>
  \<open>follows plan rs r\<close>: the invocations \<open>rs\<close> and the result \<open>r\<close> are those of
  going through the commands of \<open>plan\<close> one after the other with \<open>run_command\<close>,
  stopping at the first that does not return code 0, or before a command when a
  \<open>print\<close> raised.
\<close>

definition print_raised :: "py_exception + 'a \<Rightarrow> bool" where
  "print_raised r = (case r of Inl (UnicodeEncodeError _) \<Rightarrow> True | _ \<Rightarrow> False)"

fun follows ::
  "invocation list \<Rightarrow> (string list \<times> path option \<times> (py_exception + int)) list \<Rightarrow>
   py_exception + 'a \<Rightarrow> bool" where
  "follows [] rs r = (rs = [] \<and> (\<not> isl r \<or> print_raised r))"
| "follows (p # ps) [] r = print_raised r"
| "follows (p # ps) ((c, d, oc) # rs) r =
     ((c, d) = p \<and>
      (case oc of
         Inl e \<Rightarrow> rs = [] \<and> r = Inl e
       | Inr rc \<Rightarrow> if rc = 0 then follows ps rs r
                  else rs = [] \<and> r = Inl (CommandError (failure_text rc c))))"

text \<open>
  The commands of the spec, section 4.2: for a destination that is present, fetch,
  checkout, fast-forward pull in the destination; otherwise one clone.
\<close>

definition sync_plan :: "string \<Rightarrow> path \<Rightarrow> string \<Rightarrow> bool \<Rightarrow> invocation list" where
  "sync_plan url destination branch' present =
     (if present
      then [([''git'', ''fetch'', ''--all''], Some destination),
            ([''git'', ''checkout'', branch'], Some destination),
            ([''git'', ''pull'', ''--ff-only''], Some destination)]
      else [([''git'', ''clone'', ''--branch'', branch', url, str_path destination], None)])"

text \<open>
  The sequence of the spec, section 4.3, for parsed arguments \<open>a\<close> and the resolved
  workspace: the packaging repository at branch \<open>main\<close>, the fork at the user's
  branch, the build, and the start unless \<open>--no-start\<close> was given. \<open>e1\<close> and \<open>e2\<close>
  say whether the two destinations were present when they were looked at.
\<close>

definition plan :: "args \<Rightarrow> path \<Rightarrow> bool \<Rightarrow> bool \<Rightarrow> invocation list" where
  "plan a workspace' e1 e2 =
     sync_plan (packaging_url a) (path_div workspace' ''netdisco-docker'') ''main'' e1 @
     sync_plan (repo_url a) (path_div workspace' ''netdisco'') (branch a) e2 @
     [(compose_cmd (compose_services a) (branch a) (repo_url a),
       Some (path_div workspace' ''netdisco-docker''))] @
     (if no_start a then [] else [(up_cmd, Some (path_div workspace' ''netdisco-docker''))])"

text \<open>
  The build arguments of a \<open>docker compose build\<close> command line: the token after each
  \<open>--build-arg\<close>, and what follows the equals sign of a \<open>--build-arg=...\<close> token.
\<close>

fun build_args :: "string list \<Rightarrow> string list" where
  "build_args [] = []"
| "build_args (t # ts) =
     (if t = ''--build-arg'' then (case ts of [] \<Rightarrow> [] | v # rest \<Rightarrow> v # build_args rest)
      else if take 12 t = ''--build-arg='' then drop 12 t # build_args ts
      else build_args ts)"



text \<open>
  \<open>str()\<close> of the \<open>FileNotFoundError\<close> that \<open>subprocess.run\<close> raises when the
  program \<open>exe\<close> is not on the host (\<open>ENOENT\<close> with the program as file name), for a
  name that \<open>repr\<close> leaves as it is between apostrophes, as \<open>git\<close> and \<open>docker\<close> are.
\<close>

definition no_such_file :: "string \<Rightarrow> string" where
  "no_such_file exe = ''[Errno 2] No such file or directory: '' @ apostrophe @ exe @ apostrophe"

section \<open>A small host to run the model on\<close>

text \<open>
  A host whose external commands answer from a script: each invocation takes the next
  outcome of \<open>pending\<close>, and returns code 0 once the script is used up. Commands leave
  the file system as it is. Paths are resolved by splitting at slashes, relative ones
  against the home directory. Standard output is a strict UTF-8 stream as far as the
  runs below need it: of the non-ASCII runs it takes the ellipsis; the byte
  \<open>0xFF\<close>, which is no UTF-8, it refuses like every other run.
\<close>

record host = fs +
  pending :: "(py_exception + int) list"

fun split_slash :: "string \<Rightarrow> string \<Rightarrow> string list" where
  "split_slash cur [] = [cur]"
| "split_slash cur (c # cs) =
     (if c = CHR ''/'' then cur # split_slash [] cs else split_slash (cur @ [c]) cs)"

definition demo_resolve :: "string \<Rightarrow> host \<Rightarrow> py_exception + path" where
  "demo_resolve s w =
     (let comps = filter (\<lambda>c. c \<noteq> []) (split_slash [] s)
      in if take 1 s = ''/'' then Inr comps else Inr ([''home'', ''dev''] @ comps))"

definition demo_run ::
  "string list \<Rightarrow> path option \<Rightarrow> host \<Rightarrow> (py_exception + int) \<times> host" where
  "demo_run cmd cwd w =
     (case pending w of
        [] \<Rightarrow> (Inr 0, w)
      | oc # rest \<Rightarrow> (oc, w\<lparr>pending := rest\<rparr>))"

definition demo_os :: "unit host_ext os" where
  "demo_os =
     \<lparr>home = [''home'', ''dev''], expand_resolve = demo_resolve, subprocess_run = demo_run,
      argparse_other = (\<lambda>argv. Inl (SystemExit 2)),
      stdout_encodes = (\<lambda>part. part = ellipsis)\<rparr>"

text \<open>
  The same host with the answer of \<open>argparse\<close> on one command line outside the
  fragment: \<open>--compose-services=--build-arg=X=1\<close> gives the option the one value
  after the equals sign.
\<close>

definition explicit_os :: "unit host_ext os" where
  "explicit_os =
     demo_os\<lparr>argparse_other := (\<lambda>argv.
        if argv = [''--repo-url'', ''u'', ''--compose-services=--build-arg=X=1'']
        then Inr \<lparr>repo_url = ''u'', branch = DEFAULT_BRANCH,
                  workspace = DEFAULT_WORKSPACE demo_os,
                  packaging_url = DEFAULT_PACKAGING_REPO,
                  compose_services = [''--build-arg=X=1''], no_start = False\<rparr>
        else Inl (SystemExit 2))\<rparr>"

definition demo_host :: "path list \<Rightarrow> (py_exception + int) list \<Rightarrow> host" where
  "demo_host ds script = \<lparr>dirs = set ds, files = {}, pending = script\<rparr>"

section \<open>Properties\<close>

subsection \<open>Sequencing and traces\<close>

lemma runs_append [simp]: "runs (xs @ ys) = runs xs @ runs ys"
  by (induction xs rule: runs.induct) auto

lemma printed_append [simp]: "printed f (xs @ ys) = printed f xs @ printed f ys"
  by (induction f xs rule: printed.induct) auto

lemma invoked_append [simp]: "invoked (xs @ ys) = invoked xs @ invoked ys"
  by (simp add: invoked_def)

lemma and_thenE:
  assumes "and_then m k w = (r, evs, w')"
  obtains (raised) e where "m w = (Inl e, evs, w')" "r = Inl e"
  | (returned) x evs1 w1 evs2 where
      "m w = (Inr x, evs1, w1)" "k x w1 = (r, evs2, w')" "evs = evs1 @ evs2"
  using assms unfolding and_then_def
  by (auto split: prod.splits sum.splits)

lemma stdout_outcome:
  assumes "print os f t w = (r, evs, w')"
  obtains (raised) "f = Stdout" "\<not> stdout_accepts os t" "r = Inl (UnicodeEncodeError t)"
      "evs = []" "w' = w"
  | (printed) "f = Stdout \<longrightarrow> stdout_accepts os t" "r = Inr ()" "evs = [Print f t]" "w' = w"
  using assms unfolding print_def by (auto split: if_splits)

subsection \<open>Going through a plan\<close>

lemma print_raised_simps [simp]:
  "print_raised (Inl (UnicodeEncodeError t))"
  "\<not> print_raised (Inr x)"
  "\<not> print_raised (Inl (CommandError t))"
  "\<not> print_raised (Inl (FileNotFoundError t))"
  by (simp_all add: print_raised_def)


lemma print_raised_retype:
  "print_raised (Inl e :: py_exception + 'a) \<Longrightarrow> print_raised (Inl e :: py_exception + 'b)"
  by (auto simp: print_raised_def split: py_exception.splits)

lemma follows_Nil_raised: "print_raised r \<Longrightarrow> follows P [] r"
  by (cases P) auto

lemma follows_append_ok:
  "follows P rs (Inr x) \<Longrightarrow> follows Q rs' r \<Longrightarrow> follows (P @ Q) (rs @ rs') r"
  by (induction P rs "Inr x :: py_exception + 'a" rule: follows.induct)
     (auto split: sum.splits if_splits)

lemma follows_append_fail:
  "follows P rs (Inl e :: py_exception + 'a) \<Longrightarrow> follows (P @ Q) rs (Inl e :: py_exception + 'b)"
  by (induction P rs "Inl e :: py_exception + 'a" rule: follows.induct)
     (auto split: sum.splits if_splits intro: follows_Nil_raised print_raised_retype)

lemma and_then_follows:
  assumes "and_then m k w = (r, evs, w')"
    and "\<And>r1 evs1 w1. m w = (r1, evs1, w1) \<Longrightarrow> follows P (runs evs1) r1"
    and "\<And>x evs1 w1 evs2. m w = (Inr x, evs1, w1) \<Longrightarrow> k x w1 = (r, evs2, w') \<Longrightarrow>
           follows Q (runs evs2) r"
  shows "follows (P @ Q) (runs evs) r"
  using assms(1)
proof (cases rule: and_thenE)
  case (raised e)
  then show ?thesis using assms(2) follows_append_fail by blast
next
  case (returned x evs1 w1 evs2)
  then show ?thesis using assms(2,3) follows_append_ok by fastforce
qed

lemma and_then_silent:
  assumes "and_then m k w = (r, evs, w')"
    and "\<And>r1 evs1 w1. m w = (r1, evs1, w1) \<Longrightarrow> follows [] (runs evs1) r1"
    and "\<And>x evs1 w1 evs2. m w = (Inr x, evs1, w1) \<Longrightarrow> k x w1 = (r, evs2, w') \<Longrightarrow>
           follows Q (runs evs2) r"
  shows "follows Q (runs evs) r"
  using and_then_follows [OF assms(1), of "[]" Q] assms(2,3) by simp

lemma follows_prefix: "follows P rs r \<Longrightarrow> prefix (map (\<lambda>(c, d, oc). (c, d)) rs) P"
  by (induction P rs r rule: follows.induct) (auto split: sum.splits if_splits)



lemma follows_nonzero:
  "follows P rs r \<Longrightarrow> rs = pre @ (c, d, Inr rc) # post \<Longrightarrow> rc \<noteq> 0 \<Longrightarrow>
     post = [] \<and> r = Inl (CommandError (failure_text rc c))"
proof (induction P rs r arbitrary: pre rule: follows.induct)
  case (3 p ps c' d' oc rs r)
  then show ?case
    by (cases pre) (auto split: sum.splits if_splits)
qed auto

lemma follows_launch_failed:
  "follows P rs r \<Longrightarrow> rs = pre @ (c, d, Inl e) # post \<Longrightarrow> post = [] \<and> r = Inl e"
proof (induction P rs r arbitrary: pre rule: follows.induct)
  case (3 p ps c' d' oc rs r)
  then show ?case
    by (cases pre) (auto split: sum.splits if_splits)
qed auto

subsection \<open>The functions of the source\<close>


lemma run_command_follows:
  "run_command os c d w = (r, evs, w') \<Longrightarrow> follows [(c, d)] (runs evs) r"
  by (auto simp: run_command_def failure_text_def split: prod.splits sum.splits if_splits)

lemma print_follows: "print os f t w = (r, evs, w') \<Longrightarrow> follows [] (runs evs) r"
  by (erule stdout_outcome) auto

lemma path_exists_follows: "path_exists p w = (r, evs, w') \<Longrightarrow> follows [] (runs evs) r"
  by (auto simp: path_exists_def)

lemma ensure_repo_follows:
  assumes "ensure_repo os url dest b w = (r, evs, w')"
  shows "follows (sync_plan url dest b (exists_path w dest)) (runs evs) r"
  using assms unfolding ensure_repo_def
proof (rule and_then_silent, goal_cases)
  case (1 r1 evs1 w1)
  then show ?case by (rule path_exists_follows)
next
  case (2 x evs1 w1 evs2)
  then have x: "x = exists_path w dest" by (auto simp: path_exists_def)
  show ?case
  proof (cases x)
    case True
    with 2(2) have run: "and_then (print os Stdout (''Updating repository in '' @ str_path dest)) (\<lambda>_.
         and_then (run_command os [''git'', ''fetch'', ''--all''] (Some dest)) (\<lambda>_.
         and_then (run_command os [''git'', ''checkout'', b] (Some dest)) (\<lambda>_.
         run_command os [''git'', ''pull'', ''--ff-only''] (Some dest)))) w1 = (r, evs2, w')"
      by simp
    have "follows ([([''git'', ''fetch'', ''--all''], Some dest)] @
          ([([''git'', ''checkout'', b], Some dest)] @ [([''git'', ''pull'', ''--ff-only''], Some dest)]))
          (runs evs2) r"
      by (rule and_then_silent [OF run], erule print_follows, erule and_then_follows,
          erule run_command_follows, erule and_then_follows, (erule run_command_follows)+)
    with True x show ?thesis by (simp add: sync_plan_def)
  next
    case False
    with 2(2) have run: "and_then (print os Stdout (''Cloning '' @ url @ '' into '' @ str_path dest)) (\<lambda>_.
         run_command os
           [''git'', ''clone'', ''--branch'', b, url, str_path dest] None) w1 = (r, evs2, w')"
      by simp
    have "follows [([''git'', ''clone'', ''--branch'', b, url, str_path dest], None)] (runs evs2) r"
      by (rule and_then_silent [OF run], erule print_follows, erule run_command_follows)
    with False x show ?thesis by (simp add: sync_plan_def)
  qed
qed




lemma skipping_parts:
  "non_ascii_parts (''Build complete. Skipping '' @ apostrophe @ ''docker compose up''
                       @ apostrophe @ '' as requested.'') = []"
  by code_simp




lemma accepts_skipping [simp]:
  "stdout_accepts os (''Build complete. Skipping '' @ apostrophe @ ''docker compose up''
                       @ apostrophe @ '' as requested.'')"
  by (simp only: stdout_accepts_def skipping_parts) simp



lemma build_and_run_follows:
  assumes "build_and_run os pdir services b u start w = (r, evs, w')"
  shows "follows ((compose_cmd services b u, Some pdir) # (if start then [(up_cmd, Some pdir)] else []))
           (runs evs) r"
proof -
  have "follows ([(compose_cmd services b u, Some pdir)] @ (if start then [(up_cmd, Some pdir)] else []))
          (runs evs) r"
    using assms unfolding build_and_run_def
  proof (rule and_then_silent, goal_cases)
    case (1 r1 evs1 w1)
    then show ?case by (rule print_follows)
  next
    case (2 x evs1 w1 evs2)
    from 2(2) show ?case
    proof (rule and_then_follows, goal_cases)
      case (1 r1 evs1 w1)
      then show ?case by (rule run_command_follows)
    next
      case (2 y evs3 w3 evs4)
      show ?case
      proof (cases start)
        case True
        with 2(2) have up: "and_then (print os Stdout (''Starting Docker stack'' @ ellipsis)) (\<lambda>_.
           and_then (run_command os up_cmd (Some pdir)) (\<lambda>_.
           print os Stdout (''Stack started. Use '' @ apostrophe @ ''docker compose logs -f''
                       @ apostrophe @ '' to watch output.''))) w3 = (r, evs4, w')"
          by simp
        have "follows ([(up_cmd, Some pdir)] @ []) (runs evs4) r"
          by (rule and_then_silent [OF up], erule print_follows, erule and_then_follows,
              erule run_command_follows, erule print_follows)
        with True show ?thesis by simp
      next
        case False
        with 2(2) print_follows show ?thesis by fastforce
      qed
    qed
  qed
  then show ?thesis by simp
qed






lemma main_steps_follows:
  assumes "main_steps os a ws w = (r, evs, w')"
  shows "\<exists>e2. follows (plan a ws (exists_path w (path_div ws ''netdisco-docker'')) e2) (runs evs) r"
proof -
  let ?pdir = "path_div ws ''netdisco-docker''" and ?fdir = "path_div ws ''netdisco''"
  let ?tail = "\<lambda>_::unit. and_then (ensure_repo os (repo_url a) ?fdir (branch a)) (\<lambda>_.
         build_and_run os ?pdir (compose_services a) (branch a) (repo_url a) (\<not> no_start a))"
  let ?B = "(compose_cmd (compose_services a) (branch a) (repo_url a), Some ?pdir) #
            (if \<not> no_start a then [(up_cmd, Some ?pdir)] else [])"
  from assms have run: "and_then (ensure_repo os (packaging_url a) ?pdir ''main'') ?tail w = (r, evs, w')"
    by (simp add: main_steps_def Let_def)
  show ?thesis using run
  proof (cases rule: and_thenE)
    case (raised e)
    from ensure_repo_follows [OF raised(1)] raised(2)
    have "follows (sync_plan (packaging_url a) ?pdir ''main'' (exists_path w ?pdir) @
            (sync_plan (repo_url a) ?fdir (branch a) True @ ?B)) (runs evs) r"
      by (simp only: follows_append_fail)
    then show ?thesis unfolding plan_def by (intro exI [of _ True]) (simp split: if_splits)
  next
    case (returned x evs1 w1 evs2)
    have "follows (sync_plan (repo_url a) ?fdir (branch a) (exists_path w1 ?fdir) @ ?B) (runs evs2) r"
      by (rule and_then_follows [OF returned(2)])
         (erule ensure_repo_follows, erule build_and_run_follows)
    with ensure_repo_follows [OF returned(1)] returned(3)
    have "follows (sync_plan (packaging_url a) ?pdir ''main'' (exists_path w ?pdir) @
            (sync_plan (repo_url a) ?fdir (branch a) (exists_path w1 ?fdir) @ ?B)) (runs evs) r"
      by (simp add: follows_append_ok)
    then show ?thesis unfolding plan_def
      by (intro exI [of _ "exists_path w1 ?fdir"]) (simp split: if_splits)
  qed
qed

subsection \<open>Decimal numerals\<close>

lemma digit_val_digit_char: "d < 10 \<Longrightarrow> digit_val (digit_char d) = d"
  by (simp add: digit_val_def digit_char_def)

lemma read_nat_snoc: "read_nat (s @ [c]) = 10 * read_nat s + digit_val c"
  by (simp add: read_nat_def)

lemma read_nat_str_nat: "read_nat (str_nat n) = n"
proof (induction n rule: str_nat.induct)
  case (1 n)
  show ?case
  proof (cases "n < 10")
    case True
    then show ?thesis
      by (subst str_nat.simps) (simp add: read_nat_def digit_val_digit_char)
  next
    case False
    with 1 have "read_nat (str_nat (n div 10)) = n div 10" by simp
    with False show ?thesis
      by (subst str_nat.simps) (simp add: read_nat_snoc digit_val_digit_char)
  qed
qed

lemma str_nat_nonempty: "str_nat n \<noteq> []"
  by (subst str_nat.simps) simp

lemma digit_char_not_minus: "d < 10 \<Longrightarrow> digit_char d \<noteq> CHR ''-''"
proof
  assume d: "d < 10" and eq: "digit_char d = CHR ''-''"
  from eq have "of_char (digit_char d) = (of_char (CHR ''-'') :: nat)" by simp
  with d show False by (simp add: digit_char_def)
qed

lemma hd_str_nat: "hd (str_nat n) \<noteq> CHR ''-''"
proof (induction n rule: str_nat.induct)
  case (1 n)
  show ?case
  proof (cases "n < 10")
    case True
    then show ?thesis by (subst str_nat.simps) (simp add: digit_char_not_minus)
  next
    case False
    with 1 show ?thesis by (subst str_nat.simps) (simp add: str_nat_nonempty)
  qed
qed

lemma read_int_str_int: "read_int (str_int i) = i"
proof (cases "i < 0")
  case True
  then show ?thesis by (simp add: read_int_def str_int_def read_nat_str_nat)
next
  case False
  obtain c cs where s: "str_nat (nat i) = c # cs"
    using str_nat_nonempty [of "nat i"] by (cases "str_nat (nat i)") auto
  with hd_str_nat [of "nat i"] have "c \<noteq> CHR ''-''" by simp
  with False s read_nat_str_nat [of "nat i"] show ?thesis
    by (simp add: read_int_def str_int_def)
qed

section \<open>The command runner\<close>

lemma str_nat_128: "str_nat 128 = ''128''"
  by code_simp

text \<open>
  Claim C6. \<open>run_command\<close> returns (with no value) exactly when the external process
  exits with code 0. For every other return code it raises \<open>CommandError\<close>, and the
  text of the error is \<open>Command failed (\<close>, the return code in decimal, \<open>): \<close> and
  the words of the command joined by single spaces; reading the decimal back gives
  the return code.
\<close>

theorem run_command_result:
  "(fst (run_command os cmd cwd w) = Inr ()) = (fst (subprocess_run os cmd cwd w) = Inr 0) \<and>
   (\<forall>rc. fst (subprocess_run os cmd cwd w) = Inr rc \<and> rc \<noteq> 0 \<longrightarrow>
      fst (run_command os cmd cwd w) =
        Inl (CommandError (''Command failed ('' @ str_int rc @ ''): '' @ join '' '' cmd)) \<and>
      read_int (str_int rc) = rc)"
  by (auto simp: run_command_def read_int_str_int split: prod.splits sum.splits)

theorem run_command_result_witness:
  "fst (subprocess_run demo_os [''git'', ''fetch'', ''--all''] None (demo_host [] [Inr 128])) = Inr 128 \<and>
   (128 :: int) \<noteq> 0 \<and>
   fst (run_command demo_os [''git'', ''fetch'', ''--all''] None (demo_host [] [Inr 128])) =
     Inl (CommandError ''Command failed (128): git fetch --all'') \<and>
   fst (run_command demo_os [''git'', ''fetch'', ''--all''] None (demo_host [] [])) = Inr ()"
  using run_command_result [of demo_os "[''git'', ''fetch'', ''--all'']" None "demo_host [] [Inr 128]"]
    run_command_result [of demo_os "[''git'', ''fetch'', ''--all'']" None "demo_host [] []"]
  by (simp add: demo_os_def demo_run_def demo_host_def str_int_def str_nat_128)

section \<open>The repository syncer\<close>














section \<open>The driver\<close>

lemma run_command_stderr: "run_command os c d w = (r, evs, w') \<Longrightarrow> printed Stderr evs = []"
  by (auto simp: run_command_def split: prod.splits sum.splits if_splits)

lemma print_stdout_stderr: "print os Stdout t w = (r, evs, w') \<Longrightarrow> printed Stderr evs = []"
  by (auto simp: print_def split: if_splits)

lemma path_exists_stderr: "path_exists p w = (r, evs, w') \<Longrightarrow> printed Stderr evs = []"
  by (auto simp: path_exists_def)

lemma and_then_stderr:
  assumes "and_then m k w = (r, evs, w')"
    and "\<And>r1 evs1 w1. m w = (r1, evs1, w1) \<Longrightarrow> printed Stderr evs1 = []"
    and "\<And>x w1 r2 evs2 w2. k x w1 = (r2, evs2, w2) \<Longrightarrow> printed Stderr evs2 = []"
  shows "printed Stderr evs = []"
  using assms(1) by (cases rule: and_thenE) (auto dest: assms(2,3))

lemma ensure_repo_stderr:
  "ensure_repo os url dest b w = (r, evs, w') \<Longrightarrow> printed Stderr evs = []"
  unfolding ensure_repo_def
  apply (erule and_then_stderr)
   apply (erule path_exists_stderr)
  apply (simp only: split: if_splits)
   apply (erule and_then_stderr, erule print_stdout_stderr)
   apply (erule and_then_stderr, erule run_command_stderr)
   apply (erule and_then_stderr, erule run_command_stderr)
   apply (erule run_command_stderr)
  apply (erule and_then_stderr, erule print_stdout_stderr)
  apply (erule run_command_stderr)
  done

lemma build_and_run_stderr:
  "build_and_run os pdir services b u start w = (r, evs, w') \<Longrightarrow> printed Stderr evs = []"
  unfolding build_and_run_def
  apply (erule and_then_stderr, erule print_stdout_stderr)
  apply (erule and_then_stderr, erule run_command_stderr)
  apply (simp only: split: if_splits)
   apply (erule and_then_stderr, erule print_stdout_stderr)
   apply (erule and_then_stderr, erule run_command_stderr)
   apply (erule print_stdout_stderr)
  apply (erule print_stdout_stderr)
  done

lemma main_steps_stderr:
  "main_steps os a ws w = (r, evs, w') \<Longrightarrow> printed Stderr evs = []"
  unfolding main_steps_def Let_def
  apply (erule and_then_stderr, erule ensure_repo_stderr)
  apply (erule and_then_stderr, erule ensure_repo_stderr)
  apply (erule build_and_run_stderr)
  done

text \<open>
  What a run of \<open>main\<close> that got its arguments and its workspace consists of: the
  \<open>mkdir\<close>, then, unless that raised, the steps of the \<open>try\<close> block and what the
  handlers add.
\<close>

lemma main_cases:
  assumes "main os argv w = (r, evs, w')"
    and "parse_args os argv = Inr a" and "expand_resolve os (workspace a) w = Inr ws"
  obtains (mkdir_raised) e where
      "mkdir ws True True w = Inl e" "r = Inl e" "evs = [Mkdir ws True True]"
  | (returned) w1 evs0 where
      "mkdir ws True True w = Inr w1" "main_steps os a ws w1 = (Inr (), evs0, w')"
      "r = Inr 0" "evs = Mkdir ws True True # evs0"
  | (command_error) w1 evs0 t where
      "mkdir ws True True w = Inr w1" "main_steps os a ws w1 = (Inl (CommandError t), evs0, w')"
      "r = Inr 1" "evs = Mkdir ws True True # evs0 @ [Print Stderr t]"
  | (not_found) w1 evs0 t where
      "mkdir ws True True w = Inr w1"
      "main_steps os a ws w1 = (Inl (FileNotFoundError t), evs0, w')"
      "r = Inr 1"
      "evs = Mkdir ws True True # evs0 @
         [Print Stderr (''Required executable not found: '' @ t @ ''. Please install git and docker.'')]"
  | (uncaught) w1 evs0 e where
      "mkdir ws True True w = Inr w1" "main_steps os a ws w1 = (Inl e, evs0, w')"
      "r = Inl e" "evs = Mkdir ws True True # evs0"
      "\<forall>t. e \<noteq> CommandError t" "\<forall>t. e \<noteq> FileNotFoundError t"
  using assms unfolding main_def main_try_def and_then_def path_mkdir_def
  by (auto split: sum.splits prod.splits py_exception.splits)

lemma main_no_events:
  assumes "main os argv w = (r, evs, w')" and "evs \<noteq> []"
  obtains a ws where "parse_args os argv = Inr a" "expand_resolve os (workspace a) w = Inr ws"
  using assms unfolding main_def by (auto split: sum.splits)

lemma runs_Cons_other [simp]: "runs (Mkdir p x y # evs) = runs evs"
  by simp

lemma runs_snoc_print [simp]: "runs (evs @ [Print f t]) = runs evs"
  by simp

lemma main_runs:
  assumes "main os argv w = (r, evs, w')" and "runs evs \<noteq> []"
  obtains a ws w1 r0 evs0 e2 where
    "parse_args os argv = Inr a" "expand_resolve os (workspace a) w = Inr ws"
    "mkdir ws True True w = Inr w1" "main_steps os a ws w1 = (r0, evs0, w')"
    "runs evs = runs evs0"
    "follows (plan a ws (exists_path w1 (path_div ws ''netdisco-docker'')) e2) (runs evs0) r0"
proof -
  from assms(2) have "evs \<noteq> []" by auto
  with assms(1) obtain a ws where
    a: "parse_args os argv = Inr a" and ws: "expand_resolve os (workspace a) w = Inr ws"
    by (rule main_no_events)
  from assms(1) a ws show ?thesis
  proof (cases rule: main_cases)
    case (mkdir_raised e)
    with assms(2) show ?thesis by simp
  next
    case (returned w1 evs0)
    with main_steps_follows [OF returned(2)] a ws that show ?thesis by auto
  next
    case (command_error w1 evs0 t)
    with main_steps_follows [OF command_error(2)] a ws that show ?thesis by auto
  next
    case (not_found w1 evs0 t)
    with main_steps_follows [OF not_found(2)] a ws that show ?thesis by auto
  next
    case (uncaught w1 evs0 e)
    with main_steps_follows [OF uncaught(2)] a ws that show ?thesis by auto
  qed
qed

lemma main_result:
  assumes "main os argv w = (r, evs, w')"
    and "parse_args os argv = Inr a" and "expand_resolve os (workspace a) w = Inr ws"
    and "mkdir ws True True w = Inr w1" and "main_steps os a ws w1 = (r0, evs0, w'')"
  shows "r = (case r0 of Inr _ \<Rightarrow> Inr 0 | Inl (CommandError t) \<Rightarrow> Inr 1
                | Inl (FileNotFoundError t) \<Rightarrow> Inr 1 | Inl e \<Rightarrow> Inl e)"
    and "printed Stderr evs =
           (case r0 of Inl (CommandError t) \<Rightarrow> [t]
            | Inl (FileNotFoundError t) \<Rightarrow>
                [''Required executable not found: '' @ t @ ''. Please install git and docker.'']
            | _ \<Rightarrow> [])"
  using assms main_steps_stderr [OF assms(5)]
  unfolding main_def main_try_def and_then_def path_mkdir_def
  by (auto split: sum.splits prod.splits py_exception.splits)

text \<open>
  Claim C3. In every run of \<open>main\<close> in which an external command exits with a code
  other than 0, \<open>main\<close> returns 1 and no external command is invoked after that one.
\<close>

theorem main_fail_fast:
  assumes "main os argv w = (r, evs, w')"
    and "evs = pre @ Run c d (Inr rc) # post" and "rc \<noteq> 0"
  shows "r = Inr 1 \<and> invoked post = []"
proof -
  from assms(2) have ne: "runs evs \<noteq> []" by simp
  from assms(1) ne obtain a ws w1 r0 evs0 e2 where
    a: "parse_args os argv = Inr a" and ws: "expand_resolve os (workspace a) w = Inr ws"
    and mk: "mkdir ws True True w = Inr w1" and steps: "main_steps os a ws w1 = (r0, evs0, w')"
    and evs0: "runs evs = runs evs0"
    and f: "follows (plan a ws (exists_path w1 (path_div ws ''netdisco-docker'')) e2) (runs evs0) r0"
    by (rule main_runs)
  from assms(2) evs0 have "runs evs0 = runs pre @ (c, d, Inr rc) # runs post" by simp
  from follows_nonzero [OF f this assms(3)]
  have "runs post = []" and r0: "r0 = Inl (CommandError (failure_text rc c))" by simp_all
  with main_result(1) [OF assms(1) a ws mk steps] show ?thesis
    by (simp add: invoked_def)
qed

lemma demo_fail_run:
  "main demo_os [''--repo-url'', ''u'', ''--workspace'', ''/srv/ws'']
     (demo_host [[''srv''], [''srv'', ''ws'']] [Inr 128]) =
   (Inr 1,
    [Mkdir [''srv'', ''ws''] True True,
     Exists [''srv'', ''ws'', ''netdisco-docker''] False,
     Print Stdout ''Cloning https://github.com/netdisco/netdisco-docker.git into /srv/ws/netdisco-docker'',
     Run [''git'', ''clone'', ''--branch'', ''main'',
          ''https://github.com/netdisco/netdisco-docker.git'', ''/srv/ws/netdisco-docker'']
       None (Inr 128),
     Print Stderr ''Command failed (128): git clone --branch main https://github.com/netdisco/netdisco-docker.git /srv/ws/netdisco-docker''],
    demo_host [[''srv''], [''srv'', ''ws'']] [])"
  by code_simp

theorem main_fail_fast_witness:
  "fst (snd (main demo_os [''--repo-url'', ''u'', ''--workspace'', ''/srv/ws'']
     (demo_host [[''srv''], [''srv'', ''ws'']] [Inr 128]))) =
     [Mkdir [''srv'', ''ws''] True True,
      Exists [''srv'', ''ws'', ''netdisco-docker''] False,
      Print Stdout ''Cloning https://github.com/netdisco/netdisco-docker.git into /srv/ws/netdisco-docker''] @
     Run [''git'', ''clone'', ''--branch'', ''main'',
          ''https://github.com/netdisco/netdisco-docker.git'', ''/srv/ws/netdisco-docker'']
       None (Inr 128) #
     [Print Stderr ''Command failed (128): git clone --branch main https://github.com/netdisco/netdisco-docker.git /srv/ws/netdisco-docker''] \<and>
   (128 :: int) \<noteq> 0 \<and>
   fst (main demo_os [''--repo-url'', ''u'', ''--workspace'', ''/srv/ws'']
     (demo_host [[''srv''], [''srv'', ''ws'']] [Inr 128])) = Inr 1 \<and>
   invoked [Print Stderr ''Command failed (128): git clone --branch main https://github.com/netdisco/netdisco-docker.git /srv/ws/netdisco-docker''] = []"
  using main_fail_fast [OF demo_fail_run, of
      "[Mkdir [''srv'', ''ws''] True True,
        Exists [''srv'', ''ws'', ''netdisco-docker''] False,
        Print Stdout ''Cloning https://github.com/netdisco/netdisco-docker.git into /srv/ws/netdisco-docker'']"
      "[''git'', ''clone'', ''--branch'', ''main'',
        ''https://github.com/netdisco/netdisco-docker.git'', ''/srv/ws/netdisco-docker'']"
      None 128
      "[Print Stderr ''Command failed (128): git clone --branch main https://github.com/netdisco/netdisco-docker.git /srv/ws/netdisco-docker'']"]
  by (simp add: demo_fail_run)

lemma in_runs_iff: "(c, d, oc) \<in> set (runs evs) \<longleftrightarrow> Run c d oc \<in> set evs"
  by (induction evs rule: runs.induct) auto

lemma plan_heads:
  "(c, d) \<in> set (plan a ws e1 e2) \<Longrightarrow> hd c = ''git'' \<or> hd c = ''docker''"
  by (auto simp: plan_def sync_plan_def compose_cmd_def up_cmd_def split: if_splits)

lemma main_invoked_in_plan:
  assumes "main os argv w = (r, evs, w')" and "Run c d oc \<in> set evs"
  obtains a ws e1 e2 where
    "parse_args os argv = Inr a" "expand_resolve os (workspace a) w = Inr ws"
    "(c, d) \<in> set (plan a ws e1 e2)"
proof -
  from assms(2) have ne: "runs evs \<noteq> []" by (auto simp: in_runs_iff [symmetric])
  from assms(1) ne obtain a ws w1 r0 evs0 e2 where
    a: "parse_args os argv = Inr a" and ws: "expand_resolve os (workspace a) w = Inr ws"
    and mk: "mkdir ws True True w = Inr w1" and steps: "main_steps os a ws w1 = (r0, evs0, w')"
    and evs0: "runs evs = runs evs0"
    and f: "follows (plan a ws (exists_path w1 (path_div ws ''netdisco-docker'')) e2) (runs evs0) r0"
    by (rule main_runs)
  from assms(2) have "(c, d, oc) \<in> set (runs evs)" by (simp only: in_runs_iff)
  with evs0 have "(c, d, oc) \<in> set (runs evs0)" by (simp only:)
  then have "(c, d) \<in> set (map (\<lambda>(c, d, oc). (c, d)) (runs evs0))" by force
  with set_mono_prefix [OF follows_prefix [OF f]] a ws that show ?thesis by blast
qed

lemma main_launch_failed:
  assumes "main os argv w = (r, evs, w')"
    and "evs = pre @ Run c d (Inl (FileNotFoundError t)) # post"
  shows "r = Inr 1"
    and "printed Stderr evs =
           [''Required executable not found: '' @ t @ ''. Please install git and docker.'']"
    and "hd c = ''git'' \<or> hd c = ''docker''"
    and "invoked post = []"
proof -
  from assms(2) have ne: "runs evs \<noteq> []" by simp
  from assms(1) ne obtain a ws w1 r0 evs0 e2 where
    a: "parse_args os argv = Inr a" and ws: "expand_resolve os (workspace a) w = Inr ws"
    and mk: "mkdir ws True True w = Inr w1" and steps: "main_steps os a ws w1 = (r0, evs0, w')"
    and evs0: "runs evs = runs evs0"
    and f: "follows (plan a ws (exists_path w1 (path_div ws ''netdisco-docker'')) e2) (runs evs0) r0"
    by (rule main_runs)
  from assms(2) evs0
  have "runs evs0 = runs pre @ (c, d, Inl (FileNotFoundError t)) # runs post" by simp
  from follows_launch_failed [OF f this]
  have post: "runs post = []" and r0: "r0 = Inl (FileNotFoundError t)" by simp_all
  from main_result [OF assms(1) a ws mk steps] r0
  show "r = Inr 1" and "printed Stderr evs =
           [''Required executable not found: '' @ t @ ''. Please install git and docker.'']"
    by simp_all
  from post show "invoked post = []" by (simp add: invoked_def)
  from assms(2) have "Run c d (Inl (FileNotFoundError t)) \<in> set evs" by simp
  with assms(1) obtain a' ws' e1 e2' where "(c, d) \<in> set (plan a' ws' e1 e2')"
    by (rule main_invoked_in_plan)
  then show "hd c = ''git'' \<or> hd c = ''docker''" by (rule plan_heads)
qed

text \<open>
  Claim C7. When the launch of a command fails with the \<open>FileNotFoundError\<close> of a
  program that is not on the host, \<open>main\<close> returns 1 and prints one line to standard
  error: \<open>Required executable not found: \<close>, the text of the exception, which names the
  program (\<open>git\<close> or \<open>docker\<close>, the first word of the command), and the hint
  \<open>Please install git and docker.\<close>
\<close>

theorem main_missing_executable:
  assumes "main os argv w = (r, evs, w')"
    and "evs = pre @ Run c d (Inl (FileNotFoundError (no_such_file (hd c)))) # post"
  shows "r = Inr 1 \<and>
         (hd c = ''git'' \<or> hd c = ''docker'') \<and>
         printed Stderr evs =
           [''Required executable not found: [Errno 2] No such file or directory: '' @
            apostrophe @ hd c @ apostrophe @ ''. Please install git and docker.'']"
  using main_launch_failed [OF assms] by (simp add: no_such_file_def)

lemma demo_missing_git_run:
  "main demo_os [''--repo-url'', ''u'', ''--workspace'', ''/srv/ws'']
     (demo_host [[''srv'']] [Inl (FileNotFoundError (no_such_file ''git''))]) =
   (Inr 1,
    [Mkdir [''srv'', ''ws''] True True,
     Exists [''srv'', ''ws'', ''netdisco-docker''] False,
     Print Stdout ''Cloning https://github.com/netdisco/netdisco-docker.git into /srv/ws/netdisco-docker'',
     Run [''git'', ''clone'', ''--branch'', ''main'',
          ''https://github.com/netdisco/netdisco-docker.git'', ''/srv/ws/netdisco-docker'']
       None (Inl (FileNotFoundError (no_such_file ''git''))),
     Print Stderr (''Required executable not found: [Errno 2] No such file or directory: '' @
       apostrophe @ ''git'' @ apostrophe @ ''. Please install git and docker.'')],
    demo_host [[''srv''], [''srv'', ''ws'']] [])"
  by code_simp

theorem main_missing_executable_witness:
  "fst (snd (main demo_os [''--repo-url'', ''u'', ''--workspace'', ''/srv/ws'']
     (demo_host [[''srv'']] [Inl (FileNotFoundError (no_such_file ''git''))]))) =
     [Mkdir [''srv'', ''ws''] True True,
      Exists [''srv'', ''ws'', ''netdisco-docker''] False,
      Print Stdout ''Cloning https://github.com/netdisco/netdisco-docker.git into /srv/ws/netdisco-docker''] @
     Run [''git'', ''clone'', ''--branch'', ''main'',
          ''https://github.com/netdisco/netdisco-docker.git'', ''/srv/ws/netdisco-docker'']
       None (Inl (FileNotFoundError (no_such_file ''git''))) #
     [Print Stderr (''Required executable not found: [Errno 2] No such file or directory: '' @
        apostrophe @ ''git'' @ apostrophe @ ''. Please install git and docker.'')] \<and>
   fst (main demo_os [''--repo-url'', ''u'', ''--workspace'', ''/srv/ws'']
     (demo_host [[''srv'']] [Inl (FileNotFoundError (no_such_file ''git''))])) = Inr 1 \<and>
   printed Stderr (fst (snd (main demo_os [''--repo-url'', ''u'', ''--workspace'', ''/srv/ws'']
     (demo_host [[''srv'']] [Inl (FileNotFoundError (no_such_file ''git''))])))) =
     [''Required executable not found: [Errno 2] No such file or directory: '' @
      apostrophe @ ''git'' @ apostrophe @ ''. Please install git and docker.'']"
  using main_missing_executable [OF demo_missing_git_run, of
      "[Mkdir [''srv'', ''ws''] True True,
        Exists [''srv'', ''ws'', ''netdisco-docker''] False,
        Print Stdout ''Cloning https://github.com/netdisco/netdisco-docker.git into /srv/ws/netdisco-docker'']"
      "[''git'', ''clone'', ''--branch'', ''main'',
        ''https://github.com/netdisco/netdisco-docker.git'', ''/srv/ws/netdisco-docker'']"
      None
      "[Print Stderr (''Required executable not found: [Errno 2] No such file or directory: '' @
        apostrophe @ ''git'' @ apostrophe @ ''. Please install git and docker.'')]"]
  by (simp add: demo_missing_git_run)

lemma invoked_Mkdir [simp]: "invoked (Mkdir p x y # evs) = invoked evs"
  by (simp add: invoked_def)

lemma invoked_snoc_Print [simp]: "invoked (evs @ [Print f t]) = invoked evs"
  by (simp add: invoked_def)


lemma demo_parse_dev:
  "parse_args demo_os [''--repo-url'', ''u'', ''--workspace'', ''/srv/ws'', ''--branch'', ''dev''] =
     Inr \<lparr>repo_url = ''u'', branch = ''dev'', workspace = ''/srv/ws'',
          packaging_url = ''https://github.com/netdisco/netdisco-docker.git'',
          compose_services = [''netdisco-backend'', ''netdisco-web''], no_start = False\<rparr>"
  by code_simp










lemma plan_build:
  assumes "(c, d) \<in> set (plan a ws e1 e2)" and "take 3 c = [''docker'', ''compose'', ''build'']"
  shows "c = compose_cmd (compose_services a) (branch a) (repo_url a)"
    and "d = Some (path_div ws ''netdisco-docker'')"
  using assms
  by (auto simp: plan_def sync_plan_def up_cmd_def split: if_splits)


text \<open>
  On a command line of the fragment, \<open>no_start\<close> is set exactly when \<open>--no-start\<close> is
  one of its words.
\<close>

lemma no_start_not_value: "\<not> is_value ''--no-start''"
  by (simp add: is_value_def)

lemma no_start_dropWhile:
  "''--no-start'' \<in> set (dropWhile is_value ts) \<longleftrightarrow> ''--no-start'' \<in> set ts"
  by (induction ts) (auto simp: no_start_not_value)

lemma fragment_dropWhile:
  "list_all P ts \<Longrightarrow> list_all P (dropWhile Q ts)"
  by (auto simp: list_all_iff dest: set_dropWhileD)

lemma parse_tokens_no_start:
  "parse_tokens url a0 ts = Inr a \<Longrightarrow>
   list_all (\<lambda>t. is_value t \<or> t \<in> set option_strings) ts \<Longrightarrow>
     no_start a = (no_start a0 \<or> ''--no-start'' \<in> set ts)"
proof (induction url a0 ts rule: parse_tokens.induct)
  case (1 url a)
  then show ?case by (auto split: option.splits)
next
  case (2 url a0 t ts)
  note frag = fragment_dropWhile [of "\<lambda>t. is_value t \<or> t \<in> set option_strings" ts is_value]
  from 2 frag show ?case
    by (auto simp: one_value_def no_start_dropWhile no_start_not_value
          split: if_splits option.splits list.splits)
qed

lemma parse_args_no_start:
  "in_fragment argv \<Longrightarrow> parse_args os argv = Inr a \<Longrightarrow>
     no_start a = (''--no-start'' \<in> set argv)"
  unfolding parse_args_def in_fragment_def
  by (auto dest!: parse_tokens_no_start)




lemma demo_dev_runs:
  "runs (fst (snd (main demo_os
      [''--repo-url'', ''u'', ''--workspace'', ''/srv/ws'', ''--branch'', ''dev'']
      (demo_host [[''srv'']] [])))) =
     [([''git'', ''clone'', ''--branch'', ''main'',
        ''https://github.com/netdisco/netdisco-docker.git'', ''/srv/ws/netdisco-docker''], None, Inr 0),
      ([''git'', ''clone'', ''--branch'', ''dev'', ''u'', ''/srv/ws/netdisco''], None, Inr 0),
      ([''docker'', ''compose'', ''build'', ''--build-arg'', ''COMMITTISH=dev'',
        ''--build-arg'', ''GIT_URL=u'', ''netdisco-backend'', ''netdisco-web''],
       Some [''srv'', ''ws'', ''netdisco-docker''], Inr 0),
      ([''docker'', ''compose'', ''up'', ''-d''], Some [''srv'', ''ws'', ''netdisco-docker''], Inr 0)]"
  by code_simp


section \<open>The build command\<close>

lemma build_args_values: "list_all is_value ts \<Longrightarrow> build_args ts = []"
  by (induction ts) (auto simp: is_value_def split: list.splits)

lemma build_args_of_compose_cmd:
  "build_args (compose_cmd services b u) =
     [''COMMITTISH='' @ b, ''GIT_URL='' @ u] @ build_args services"
  by (simp add: compose_cmd_def)

lemma build_args_compose_cmd:
  "list_all is_value services \<Longrightarrow>
     build_args (compose_cmd services b u) = [''COMMITTISH='' @ b, ''GIT_URL='' @ u]"
  by (simp add: build_args_of_compose_cmd build_args_values)

lemma parse_tokens_services:
  "parse_tokens url a0 ts = Inr a \<Longrightarrow> list_all is_value (compose_services a0) \<Longrightarrow>
     list_all is_value (compose_services a)"
proof (induction url a0 ts rule: parse_tokens.induct)
  case (1 url a)
  then show ?case by (auto split: option.splits)
next
  case (2 url a t ts)
  have tw: "list_all is_value (takeWhile is_value ts)"
    by (simp add: list_all_iff) (meson set_takeWhileD)
  from 2 tw show ?case
    by (auto split: if_splits option.splits)
qed

lemma parse_args_services:
  "in_fragment argv \<Longrightarrow> parse_args os argv = Inr a \<Longrightarrow> list_all is_value (compose_services a)"
  unfolding parse_args_def
  by (auto dest!: parse_tokens_services simp: is_value_def)

lemma main_build_cmd:
  assumes "main os argv w = (r, evs, w')" and "parse_args os argv = Inr a"
    and "Run c d oc \<in> set evs" and "take 3 c = [''docker'', ''compose'', ''build'']"
  shows "c = compose_cmd (compose_services a) (branch a) (repo_url a)"
proof -
  from assms(1,3) obtain a' ws e1 e2 where
    a': "parse_args os argv = Inr a'" and mem: "(c, d) \<in> set (plan a' ws e1 e2)"
    by (rule main_invoked_in_plan)
  from a' assms(2) have "a' = a" by simp
  with plan_build(1) [OF mem assms(4)] show ?thesis by simp
qed

text \<open>
  Claim C5, as amended. The \<open>docker compose build\<close> command of a run starts with the
  seven words
  \<open>docker compose build --build-arg COMMITTISH=<branch> --build-arg GIT_URL=<repo-url>\<close>,
  with the branch and the URL of the arguments unchanged, and what follows them are
  the service names. The build arguments of the whole command are these two, followed
  by the build arguments that the service names spell: \<open>build_and_run\<close> appends the
  service names as they are, and a service name \<open>--build-arg=X=1\<close> is one more build
  argument to \<open>docker compose\<close>. With service names that are values (no word
  starting with a dash, as on every command line of the fragment of \<open>parse_args\<close>),
  the build arguments are the two and no other.
\<close>

theorem main_build_args:
  assumes "main os argv w = (r, evs, w')" and "parse_args os argv = Inr a"
    and "Run c d oc \<in> set evs" and "take 3 c = [''docker'', ''compose'', ''build'']"
  shows "take 7 c =
           [''docker'', ''compose'', ''build'',
            ''--build-arg'', ''COMMITTISH='' @ branch a,
            ''--build-arg'', ''GIT_URL='' @ repo_url a] \<and>
         drop 7 c = compose_services a \<and>
         build_args c =
           [''COMMITTISH='' @ branch a, ''GIT_URL='' @ repo_url a] @
           build_args (compose_services a) \<and>
         (list_all is_value (compose_services a) \<longrightarrow>
            build_args c = [''COMMITTISH='' @ branch a, ''GIT_URL='' @ repo_url a])"
proof -
  from main_build_cmd [OF assms]
  have c: "c = compose_cmd (compose_services a) (branch a) (repo_url a)" .
  then have "take 7 c =
           [''docker'', ''compose'', ''build'',
            ''--build-arg'', ''COMMITTISH='' @ branch a,
            ''--build-arg'', ''GIT_URL='' @ repo_url a]"
    and "drop 7 c = compose_services a"
    by (simp_all add: compose_cmd_def)
  moreover from c have "build_args c =
           [''COMMITTISH='' @ branch a, ''GIT_URL='' @ repo_url a] @
           build_args (compose_services a)"
    by (simp only: build_args_of_compose_cmd)
  moreover have "list_all is_value (compose_services a) \<longrightarrow>
            build_args c = [''COMMITTISH='' @ branch a, ''GIT_URL='' @ repo_url a]"
    using c build_args_compose_cmd by blast
  ultimately show ?thesis by (intro conjI)
qed

lemma parse_no_services:
  "is_value u \<Longrightarrow>
     parse_args os [''--repo-url'', u, ''--compose-services''] =
       Inr \<lparr>repo_url = u, branch = ''main'', workspace = DEFAULT_WORKSPACE os,
            packaging_url = DEFAULT_PACKAGING_REPO, compose_services = [], no_start = False\<rparr>"
  by (simp add: parse_args_def in_fragment_def one_value_def option_strings_def DEFAULT_BRANCH_def)

text \<open>
  Claim C10. The \<open>docker compose build\<close> command of a run is the seven words of the two
  build arguments followed by the service names of the arguments, in their order.
  \<open>--compose-services\<close> with no value after it is accepted and gives no service names:
  on the command line \<open>--repo-url u --compose-services\<close> the build command is the
  seven words alone.
\<close>

theorem main_build_services:
  assumes "main os argv w = (r, evs, w')"
    and "Run c d oc \<in> set evs" and "take 3 c = [''docker'', ''compose'', ''build'']"
  shows "(\<forall>a. parse_args os argv = Inr a \<longrightarrow>
            c = [''docker'', ''compose'', ''build'',
                 ''--build-arg'', ''COMMITTISH='' @ branch a,
                 ''--build-arg'', ''GIT_URL='' @ repo_url a] @ compose_services a) \<and>
         (\<forall>u. is_value u \<and> argv = [''--repo-url'', u, ''--compose-services''] \<longrightarrow>
            c = [''docker'', ''compose'', ''build'',
                 ''--build-arg'', ''COMMITTISH=main'', ''--build-arg'', ''GIT_URL='' @ u])"
proof (intro conjI allI impI)
  fix a assume "parse_args os argv = Inr a"
  from main_build_cmd [OF assms(1) this assms(2,3)]
  show "c = [''docker'', ''compose'', ''build'',
                 ''--build-arg'', ''COMMITTISH='' @ branch a,
                 ''--build-arg'', ''GIT_URL='' @ repo_url a] @ compose_services a"
    by (simp add: compose_cmd_def)
next
  fix u assume u: "is_value u \<and> argv = [''--repo-url'', u, ''--compose-services'']"
  with parse_no_services [of u os]
  have "parse_args os argv = Inr \<lparr>repo_url = u, branch = ''main'', workspace = DEFAULT_WORKSPACE os,
            packaging_url = DEFAULT_PACKAGING_REPO, compose_services = [], no_start = False\<rparr>"
    by simp
  from main_build_cmd [OF assms(1) this assms(2,3)]
  show "c = [''docker'', ''compose'', ''build'',
                 ''--build-arg'', ''COMMITTISH=main'', ''--build-arg'', ''GIT_URL='' @ u]"
    by (simp add: compose_cmd_def)
qed

theorem main_build_args_witness:
  "parse_args demo_os [''--repo-url'', ''u'', ''--workspace'', ''/srv/ws'', ''--branch'', ''dev''] =
     Inr \<lparr>repo_url = ''u'', branch = ''dev'', workspace = ''/srv/ws'',
          packaging_url = ''https://github.com/netdisco/netdisco-docker.git'',
          compose_services = [''netdisco-backend'', ''netdisco-web''], no_start = False\<rparr> \<and>
   list_all is_value [''netdisco-backend'', ''netdisco-web''] \<and>
   Run [''docker'', ''compose'', ''build'', ''--build-arg'', ''COMMITTISH=dev'',
        ''--build-arg'', ''GIT_URL=u'', ''netdisco-backend'', ''netdisco-web'']
     (Some [''srv'', ''ws'', ''netdisco-docker'']) (Inr 0)
     \<in> set (fst (snd (main demo_os
          [''--repo-url'', ''u'', ''--workspace'', ''/srv/ws'', ''--branch'', ''dev'']
          (demo_host [[''srv'']] [])))) \<and>
   build_args [''docker'', ''compose'', ''build'', ''--build-arg'', ''COMMITTISH=dev'',
        ''--build-arg'', ''GIT_URL=u'', ''netdisco-backend'', ''netdisco-web''] =
     [''COMMITTISH=dev'', ''GIT_URL=u'']"
proof -
  let ?argv = "[''--repo-url'', ''u'', ''--workspace'', ''/srv/ws'', ''--branch'', ''dev'']"
  let ?w = "demo_host [[''srv'']] []"
  let ?build = "[''docker'', ''compose'', ''build'', ''--build-arg'', ''COMMITTISH=dev'',
        ''--build-arg'', ''GIT_URL=u'', ''netdisco-backend'', ''netdisco-web'']"
  let ?pdir = "Some [''srv'', ''ws'', ''netdisco-docker'']"
  obtain r evs w' where run: "main demo_os ?argv ?w = (r, evs, w')"
    by (cases "main demo_os ?argv ?w") blast
  have evs: "runs evs = runs (fst (snd (main demo_os ?argv ?w)))"
    by (simp only: run fst_conv snd_conv)
  have "(?build, ?pdir, Inr 0) \<in> set (runs evs)"
    unfolding evs demo_dev_runs by simp
  then have built: "Run ?build ?pdir (Inr 0) \<in> set evs"
    by (simp only: in_runs_iff)
  have b3: "take 3 ?build = [''docker'', ''compose'', ''build'']" by simp
  have vals: "list_all is_value [''netdisco-backend'', ''netdisco-web'']"
    by (simp add: is_value_def)
  then have vals2: "list_all is_value (compose_services \<lparr>repo_url = ''u'', branch = ''dev'',
          workspace = ''/srv/ws'',
          packaging_url = ''https://github.com/netdisco/netdisco-docker.git'',
          compose_services = [''netdisco-backend'', ''netdisco-web''], no_start = False\<rparr>)"
    by simp
  from main_build_args [OF run demo_parse_dev built b3] vals2
  have "build_args ?build = [''COMMITTISH=dev'', ''GIT_URL=u'']" by simp
  with vals built run demo_parse_dev show ?thesis by simp
qed

text \<open>
  The claim as first stated fails on the command line
  \<open>--repo-url u --compose-services=--build-arg=X=1\<close>: \<open>argparse\<close> gives
  \<open>--compose-services\<close> the one value after the equals sign, although it starts with
  a dash, and the build command of the run has three build arguments.
\<close>

theorem main_build_args_counterexample:
  "parse_args explicit_os [''--repo-url'', ''u'', ''--compose-services=--build-arg=X=1''] =
     Inr \<lparr>repo_url = ''u'', branch = ''main'',
          workspace = ''/home/dev/netdisco-docker-workspace'',
          packaging_url = ''https://github.com/netdisco/netdisco-docker.git'',
          compose_services = [''--build-arg=X=1''], no_start = False\<rparr> \<and>
   fst (main explicit_os [''--repo-url'', ''u'', ''--compose-services=--build-arg=X=1'']
          (demo_host [] [])) = Inr 0 \<and>
   Run [''docker'', ''compose'', ''build'', ''--build-arg'', ''COMMITTISH=main'',
        ''--build-arg'', ''GIT_URL=u'', ''--build-arg=X=1'']
     (Some [''home'', ''dev'', ''netdisco-docker-workspace'', ''netdisco-docker'']) (Inr 0)
     \<in> set (fst (snd (main explicit_os
          [''--repo-url'', ''u'', ''--compose-services=--build-arg=X=1''] (demo_host [] [])))) \<and>
   build_args [''docker'', ''compose'', ''build'', ''--build-arg'', ''COMMITTISH=main'',
        ''--build-arg'', ''GIT_URL=u'', ''--build-arg=X=1''] =
     [''COMMITTISH=main'', ''GIT_URL=u'', ''X=1''] \<and>
   build_args [''docker'', ''compose'', ''build'', ''--build-arg'', ''COMMITTISH=main'',
        ''--build-arg'', ''GIT_URL=u'', ''--build-arg=X=1''] \<noteq>
     [''COMMITTISH=main'', ''GIT_URL=u'']"
  by code_simp

lemma demo_no_services_runs:
  "runs (fst (snd (main demo_os [''--repo-url'', ''u'', ''--compose-services''] (demo_host [] [])))) =
     [([''git'', ''clone'', ''--branch'', ''main'',
        ''https://github.com/netdisco/netdisco-docker.git'',
        ''/home/dev/netdisco-docker-workspace/netdisco-docker''], None, Inr 0),
      ([''git'', ''clone'', ''--branch'', ''main'', ''u'',
        ''/home/dev/netdisco-docker-workspace/netdisco''], None, Inr 0),
      ([''docker'', ''compose'', ''build'', ''--build-arg'', ''COMMITTISH=main'',
        ''--build-arg'', ''GIT_URL=u''],
       Some [''home'', ''dev'', ''netdisco-docker-workspace'', ''netdisco-docker''], Inr 0),
      ([''docker'', ''compose'', ''up'', ''-d''],
       Some [''home'', ''dev'', ''netdisco-docker-workspace'', ''netdisco-docker''], Inr 0)]"
  by code_simp

theorem main_build_services_witness:
  "is_value ''u'' \<and>
   (\<exists>c d oc. Run c d oc \<in> set (fst (snd (main demo_os
        [''--repo-url'', ''u'', ''--compose-services''] (demo_host [] [])))) \<and>
      take 3 c = [''docker'', ''compose'', ''build''] \<and>
      c = [''docker'', ''compose'', ''build'', ''--build-arg'', ''COMMITTISH=main'',
           ''--build-arg'', ''GIT_URL=u'']) \<and>
   fst (main demo_os [''--repo-url'', ''u'', ''--compose-services''] (demo_host [] [])) = Inr 0"
proof -
  let ?argv = "[''--repo-url'', ''u'', ''--compose-services'']"
  let ?w = "demo_host [] []"
  let ?build = "[''docker'', ''compose'', ''build'', ''--build-arg'', ''COMMITTISH=main'',
        ''--build-arg'', ''GIT_URL=u'']"
  let ?pdir = "Some [''home'', ''dev'', ''netdisco-docker-workspace'', ''netdisco-docker'']"
  obtain r evs w' where run: "main demo_os ?argv ?w = (r, evs, w')"
    by (cases "main demo_os ?argv ?w") blast
  have evs: "runs evs = runs (fst (snd (main demo_os ?argv ?w)))"
    by (simp only: run fst_conv snd_conv)
  have "(?build, ?pdir, Inr 0) \<in> set (runs evs)"
    unfolding evs demo_no_services_runs by simp
  then have built: "Run ?build ?pdir (Inr 0) \<in> set evs"
    by (simp only: in_runs_iff)
  have b3: "take 3 ?build = [''docker'', ''compose'', ''build'']" by simp
  have u: "is_value ''u''" by (simp add: is_value_def)
  from main_build_services [OF run built b3, THEN conjunct2, THEN spec, of "''u''"] u
  have c: "?build = [''docker'', ''compose'', ''build'', ''--build-arg'', ''COMMITTISH=main'',
           ''--build-arg'', ''GIT_URL=u'']" by simp
  have r: "fst (main demo_os ?argv ?w) = Inr 0" by code_simp
  from built b3 c have "\<exists>c d oc. Run c d oc \<in> set evs \<and>
      take 3 c = [''docker'', ''compose'', ''build''] \<and>
      c = [''docker'', ''compose'', ''build'', ''--build-arg'', ''COMMITTISH=main'',
           ''--build-arg'', ''GIT_URL=u'']" by blast
  with u r run show ?thesis by simp
qed

section \<open>The workspace directory\<close>









end
